theory Spec2Isabelle
  imports Main "HOL-Library.Word"
begin

section \<open>Network names\<close>

text \<open>
  \<^verbatim>\<open>NetworkURL\<close> is a \<^verbatim>\<open>switch\<close> on the network name. Go strings are byte
  sequences, as \<^typ>\<open>string\<close> is; the cases are tried in the order of the source.
\<close>

definition NetworkURL :: "string \<Rightarrow> string" where
  "NetworkURL network =
     (if network = ''testnet'' then ''https://testnet-rpc.gochain.io''
      else if network = ''mainnet'' \<or> network = '''' then ''https://rpc.gochain.io''
      else if network = ''localhost'' then ''http://localhost:8545''
      else if network = ''ethereum'' then ''https://main-rpc.linkpool.io''
      else if network = ''ropsten'' then ''https://ropsten-rpc.linkpool.io''
      else '''')"

section \<open>Values shared with the wrapped library\<close>

text \<open>
  \<^verbatim>\<open>common.Address\<close> is twenty bytes and \<^verbatim>\<open>common.Hash\<close> thirty-two; a
  \<^verbatim>\<open>*big.Int\<close> is a pointer to an unbounded integer, \<open>None\<close> being \<^verbatim>\<open>nil\<close>.
  A \<^verbatim>\<open>time.Duration\<close> is a signed 64-bit count of nanoseconds.
\<close>

type_synonym address = "160 word"
type_synonym hash = "256 word"
type_synonym bytes = "8 word list"
type_synonym big_Int = "int option"
type_synonym Duration = "64 word"

definition Second :: Duration where
  \<comment> \<open>\<^verbatim>\<open>time.Second\<close> of the Go standard library, in nanoseconds\<close>
  "Second = 1000000000"

text \<open>
  An \<^verbatim>\<open>error\<close> is either a value made by \<^verbatim>\<open>errors.New\<close> in this package or a value
  handed over by the wrapped library or the context; either way it has the text that its
  \<^verbatim>\<open>Error()\<close> method returns. A Go result \<^verbatim>\<open>(v, err)\<close> is a pair whose second
  component is \<open>None\<close> for a \<^verbatim>\<open>nil\<close> error.
\<close>

datatype error = ErrorsNew string | LibError string

fun Error :: "error \<Rightarrow> string" where
  "Error (ErrorsNew text) = text"
| "Error (LibError text) = text"

definition Sprintf_s :: "string \<Rightarrow> error \<Rightarrow> string" where
  \<comment> \<open>\<^verbatim>\<open>fmt.Sprintf\<close> of a format that is a fixed text followed by \<^verbatim>\<open>%s\<close>, applied to an error\<close>
  "Sprintf_s text err = text @ Error err"

datatype Signer = HomesteadSigner

text \<open>
  The record of one identity: \<^verbatim>\<open>var id ID\<close> starts from the zero value, two
  \<^verbatim>\<open>nil\<close> integers and the all-zero hash.
\<close>

record ID =
  NetworkID :: big_Int
  ChainID :: big_Int
  GenesisHash :: hash

definition ID_zero :: ID where
  "ID_zero = \<lparr>NetworkID = None, ChainID = None, GenesisHash = 0\<rparr>"

text \<open>
  The connection handle. \<open>'cl\<close> is the type of \<^verbatim>\<open>*goclient.Client\<close> pointer values.
\<close>

record 'cl RPCClient =
  url :: string
  client :: 'cl

section \<open>The wrapped library as a parameter\<close>

text \<open>
  The client library, the context, the logger and the timer are not part of this
  repository. They are taken as a record of functions over an abstract world \<open>'w\<close>: a
  call that talks to the node, writes the log or waits maps the world before the call
  to its result and the world after it. Functions without effect are plain functions.
  The type variables stand for the library's opaque objects: the client \<open>'cl\<close>, the
  context \<open>'ctx\<close>, blocks \<open>'blk\<close>, transactions \<open>'tx\<close>, receipts \<open>'rc\<close>, snapshots
  \<open>'sn\<close>, private keys \<open>'key\<close> and public keys \<open>'pub\<close>. A pointer that the source
  compares with or sets to \<^verbatim>\<open>nil\<close> is an \<open>option\<close>.

  \<open>Public_ECDSA\<close> is \<^verbatim>\<open>privateKey.Public()\<close> followed by the type assertion to
  \<^verbatim>\<open>*ecdsa.PublicKey\<close>: \<open>None\<close> when the assertion fails, else the key pointed to.
  \<open>select_Done_After ctx d\<close> is the \<^verbatim>\<open>select\<close> between \<^verbatim>\<open>ctx.Done()\<close> and
  \<^verbatim>\<open>time.After(d)\<close>: \<open>True\<close> when the \<^verbatim>\<open>ctx.Done()\<close> case is taken.
  \<open>Println\<close> receives the line that \<^verbatim>\<open>log.Println\<close> or \<^verbatim>\<open>log.Printf\<close> formats.
\<close>

record ('w, 'cl, 'ctx, 'blk, 'tx, 'rc, 'sn, 'key, 'pub) library =
  Dial :: "string \<Rightarrow> 'w \<Rightarrow> ('cl \<times> error option) \<times> 'w"
  BalanceAt :: "'cl \<Rightarrow> 'ctx \<Rightarrow> address \<Rightarrow> big_Int \<Rightarrow> 'w \<Rightarrow> (big_Int \<times> error option) \<times> 'w"
  CodeAt :: "'cl \<Rightarrow> 'ctx \<Rightarrow> address \<Rightarrow> big_Int \<Rightarrow> 'w \<Rightarrow> (bytes \<times> error option) \<times> 'w"
  BlockByNumber :: "'cl \<Rightarrow> 'ctx \<Rightarrow> big_Int \<Rightarrow> 'w \<Rightarrow> ('blk option \<times> error option) \<times> 'w"
  TransactionByHash :: "'cl \<Rightarrow> 'ctx \<Rightarrow> hash \<Rightarrow> 'w \<Rightarrow> ('tx option \<times> bool \<times> error option) \<times> 'w"
  SnapshotAt :: "'cl \<Rightarrow> 'ctx \<Rightarrow> big_Int \<Rightarrow> 'w \<Rightarrow> ('sn option \<times> error option) \<times> 'w"
  NetworkID_of :: "'cl \<Rightarrow> 'ctx \<Rightarrow> 'w \<Rightarrow> (big_Int \<times> error option) \<times> 'w"
  ChainID_of :: "'cl \<Rightarrow> 'ctx \<Rightarrow> 'w \<Rightarrow> (big_Int \<times> error option) \<times> 'w"
  SuggestGasPrice :: "'cl \<Rightarrow> 'ctx \<Rightarrow> 'w \<Rightarrow> (big_Int \<times> error option) \<times> 'w"
  PendingNonceAt :: "'cl \<Rightarrow> 'ctx \<Rightarrow> address \<Rightarrow> 'w \<Rightarrow> (64 word \<times> error option) \<times> 'w"
  SendTransaction :: "'cl \<Rightarrow> 'ctx \<Rightarrow> 'tx option \<Rightarrow> 'w \<Rightarrow> error option \<times> 'w"
  TransactionReceipt :: "'cl \<Rightarrow> 'ctx \<Rightarrow> hash \<Rightarrow> 'w \<Rightarrow> ('rc option \<times> error option) \<times> 'w"
  HexToAddress :: "string \<Rightarrow> address"
  HexToHash :: "string \<Rightarrow> hash"
  Block_Hash :: "'blk \<Rightarrow> hash"
  Transaction_Hash :: "'tx \<Rightarrow> hash"
  HexToECDSA :: "string \<Rightarrow> 'key \<times> error option"
  Public_ECDSA :: "'key \<Rightarrow> 'pub option"
  PubkeyToAddress :: "'pub \<Rightarrow> address"
  hexutil_Decode :: "string \<Rightarrow> bytes \<times> error option"
  NewContractCreation :: "64 word \<Rightarrow> big_Int \<Rightarrow> 64 word \<Rightarrow> big_Int \<Rightarrow> bytes \<Rightarrow> 'tx"
  SignTx :: "'tx \<Rightarrow> Signer \<Rightarrow> 'key \<Rightarrow> 'tx option \<times> error option"
  Println :: "string \<Rightarrow> 'w \<Rightarrow> 'w"
  select_Done_After :: "'ctx \<Rightarrow> Duration \<Rightarrow> 'w \<Rightarrow> bool \<times> 'w"
  ctx_Err :: "'ctx \<Rightarrow> 'w \<Rightarrow> error option"

section \<open>Opening a connection\<close>

text \<open>
  \<^verbatim>\<open>GetClient\<close> dials and, when that fails, ends the process through
  \<^verbatim>\<open>log.Fatalf\<close>; \<open>Fatalf\<close> keeps the format string and its two arguments.
\<close>

datatype 'a exit = Returned 'a | Fatalf string string error

definition GetClient where
  "GetClient L rpcURL w =
     (case Dial L rpcURL w of
        ((cl, Some err), w1) \<Rightarrow> (Fatalf ''Cannot connect to the network %q: %v'' rpcURL err, w1)
      | ((cl, None), w1) \<Rightarrow> (Returned \<lparr>url = rpcURL, client = cl\<rparr>, w1))"

section \<open>Pass-through accessors\<close>

text \<open>Each accessor is a single \<^verbatim>\<open>return\<close> of the library's call.\<close>

definition GetBalance where
  "GetBalance L rpc ctx address blockNumber =
     BalanceAt L (client rpc) ctx (HexToAddress L address) blockNumber"

definition GetCode where
  "GetCode L rpc ctx address blockNumber =
     CodeAt L (client rpc) ctx (HexToAddress L address) blockNumber"

definition GetBlockByNumber where
  "GetBlockByNumber L rpc ctx number = BlockByNumber L (client rpc) ctx number"

definition GetTransactionByHash where
  "GetTransactionByHash L rpc ctx hash = TransactionByHash L (client rpc) ctx (HexToHash L hash)"

definition GetSnapshot where
  "GetSnapshot L rpc ctx = SnapshotAt L (client rpc) ctx None"

section \<open>The identity of the network\<close>

text \<open>
  \<^verbatim>\<open>GetID\<close> asks three questions in a row. A failed question is logged and its answer
  replaced by \<^verbatim>\<open>nil\<close>; an answer that is not \<^verbatim>\<open>nil\<close> is stored in the record. The
  function ends with \<^verbatim>\<open>return &id, nil\<close>.
\<close>

definition GetID where
  "GetID L rpc ctx w =
     (let id = ID_zero;
          ((netID, err), w) = NetworkID_of L (client rpc) ctx w;
          (netID, w) = (case err of
                          Some e \<Rightarrow> (None, Println L (''Failed to get network ID: '' @ Error e) w)
                        | None \<Rightarrow> (netID, w));
          id = (case netID of Some n \<Rightarrow> id\<lparr>NetworkID := netID\<rparr> | None \<Rightarrow> id);
          ((chainID, err), w) = ChainID_of L (client rpc) ctx w;
          (chainID, w) = (case err of
                            Some e \<Rightarrow> (None, Println L (''Failed to get chain ID: '' @ Error e) w)
                          | None \<Rightarrow> (chainID, w));
          id = (case chainID of Some n \<Rightarrow> id\<lparr>ChainID := chainID\<rparr> | None \<Rightarrow> id);
          ((gen, err), w) = BlockByNumber L (client rpc) ctx (Some 0) w;
          (gen, w) = (case err of
                        Some e \<Rightarrow> (None, Println L (''failed to get genesis block: '' @ Error e) w)
                      | None \<Rightarrow> (gen, w));
          id = (case gen of Some b \<Rightarrow> id\<lparr>GenesisHash := Block_Hash L b\<rparr> | None \<Rightarrow> id)
      in ((Some id, None :: error option), w))"

section \<open>Deploying a contract\<close>

text \<open>
  \<^verbatim>\<open>DeployContract\<close> strips a leading \<^verbatim>\<open>0x\<close> from a key longer than two bytes, then
  runs its steps in order; the first step that fails ends the function with a
  \<^verbatim>\<open>nil\<close> transaction and a new error. The error of \<^verbatim>\<open>types.SignTx\<close> is dropped.
\<close>

definition strip_0x :: "string \<Rightarrow> string" where
  "strip_0x privateKeyHex =
     (if length privateKeyHex > 2 \<and> take 2 privateKeyHex = ''0x''
      then drop 2 privateKeyHex else privateKeyHex)"

definition DeployContract where
  "DeployContract L rpc ctx privateKeyHex contractData w =
     (case HexToECDSA L (strip_0x privateKeyHex) of
        (privateKey, Some err) \<Rightarrow>
          ((None, Some (ErrorsNew (Sprintf_s ''Wrong private key:'' err))), w)
      | (privateKey, None) \<Rightarrow>
     (case SuggestGasPrice L (client rpc) ctx w of
        ((gasPrice, Some err), w1) \<Rightarrow>
          ((None, Some (ErrorsNew (Sprintf_s ''Cannot get gas price:'' err))), w1)
      | ((gasPrice, None), w1) \<Rightarrow>
     (case Public_ECDSA L privateKey of
        None \<Rightarrow> ((None, Some (ErrorsNew ''error casting public key to ECDSA'')), w1)
      | Some publicKeyECDSA \<Rightarrow>
     (case PendingNonceAt L (client rpc) ctx (PubkeyToAddress L publicKeyECDSA) w1 of
        ((nonce, Some err), w2) \<Rightarrow>
          ((None, Some (ErrorsNew (Sprintf_s ''Cannot get nonce:'' err))), w2)
      | ((nonce, None), w2) \<Rightarrow>
     (case hexutil_Decode L contractData of
        (decodedContractData, Some err) \<Rightarrow>
          ((None, Some (ErrorsNew (Sprintf_s ''Cannot decode contract data:'' err))), w2)
      | (decodedContractData, None) \<Rightarrow>
     (let tx = NewContractCreation L nonce (Some 0) 2000000 gasPrice decodedContractData;
          signedTx = fst (SignTx L tx HomesteadSigner privateKey)
      in case SendTransaction L (client rpc) ctx signedTx w2 of
           (Some err, w3) \<Rightarrow>
             ((None, Some (ErrorsNew (Sprintf_s ''Cannot send transaction:'' err))), w3)
         | (None, w3) \<Rightarrow> ((signedTx, None), w3)))))))"

section \<open>Waiting for a receipt\<close>

text \<open>
  The loop \<^verbatim>\<open>for i := 0; ; i++\<close> with its counter as an argument. \<open>tx\<close> is the
  transaction that the pointer \<^verbatim>\<open>tx\<close> refers to. The loop has no condition of its
  own: it ends by one of its three \<^verbatim>\<open>return\<close>s, and at the latest when \<open>i\<close> has
  reached 5.
\<close>

function WaitForReceipt_loop where
  "WaitForReceipt_loop L rpc ctx tx (i::nat) w =
     (case TransactionReceipt L (client rpc) ctx (Transaction_Hash L tx) w of
        ((receipt, None), w1) \<Rightarrow> ((receipt, None), w1)
      | ((receipt, Some err), w1) \<Rightarrow>
          if i \<ge> 5 then ((None, Some (ErrorsNew (Sprintf_s ''Cannot get the receipt:'' err))), w1)
          else (case select_Done_After L ctx (2 * Second) w1 of
                  (True, w2) \<Rightarrow> ((None, ctx_Err L ctx w2), w2)
                | (False, w2) \<Rightarrow> WaitForReceipt_loop L rpc ctx tx (i + 1) w2))"
  by pat_completeness auto
termination
  by (relation "measure (\<lambda>(L, rpc, ctx, tx, i, w). 6 - i)") auto

declare WaitForReceipt_loop.simps [simp del]

definition WaitForReceipt where
  "WaitForReceipt L rpc ctx tx w = WaitForReceipt_loop L rpc ctx tx 0 w"

section \<open>Observing the calls\<close>

text \<open>
  To speak about how often and in which order the library is called, a library is
  wrapped so that the world also carries the list of the calls made so far, each with
  what it returned. The wrapped library answers exactly as the original does; it only
  appends to the list. Five calls are recorded: the three questions of \<^verbatim>\<open>GetID\<close>, the
  receipt query and the \<^verbatim>\<open>select\<close> of the polling loop.
\<close>

datatype 'rc event =
    Ev_NetworkID "error option"
  | Ev_ChainID "error option"
  | Ev_BlockByNumber big_Int "error option"
  | Ev_TransactionReceipt hash "'rc option" "error option"
  | Ev_select Duration bool

definition silent :: "('w \<Rightarrow> 'a \<times> 'w) \<Rightarrow> 'w \<times> 'e list \<Rightarrow> 'a \<times> 'w \<times> 'e list" where
  "silent f = (\<lambda>(w, tr). case f w of (r, w1) \<Rightarrow> (r, (w1, tr)))"

definition recording :: "('a \<Rightarrow> 'e) \<Rightarrow> ('w \<Rightarrow> 'a \<times> 'w) \<Rightarrow> 'w \<times> 'e list \<Rightarrow> 'a \<times> 'w \<times> 'e list" where
  "recording ev f = (\<lambda>(w, tr). case f w of (r, w1) \<Rightarrow> (r, (w1, tr @ [ev r])))"

definition traced where
  "traced L =
     \<lparr>Dial = (\<lambda>rawurl. silent (Dial L rawurl)),
      BalanceAt = (\<lambda>c ctx a n. silent (BalanceAt L c ctx a n)),
      CodeAt = (\<lambda>c ctx a n. silent (CodeAt L c ctx a n)),
      BlockByNumber = (\<lambda>c ctx n. recording (\<lambda>r. Ev_BlockByNumber n (snd r)) (BlockByNumber L c ctx n)),
      TransactionByHash = (\<lambda>c ctx h. silent (TransactionByHash L c ctx h)),
      SnapshotAt = (\<lambda>c ctx n. silent (SnapshotAt L c ctx n)),
      NetworkID_of = (\<lambda>c ctx. recording (\<lambda>r. Ev_NetworkID (snd r)) (NetworkID_of L c ctx)),
      ChainID_of = (\<lambda>c ctx. recording (\<lambda>r. Ev_ChainID (snd r)) (ChainID_of L c ctx)),
      SuggestGasPrice = (\<lambda>c ctx. silent (SuggestGasPrice L c ctx)),
      PendingNonceAt = (\<lambda>c ctx a. silent (PendingNonceAt L c ctx a)),
      SendTransaction = (\<lambda>c ctx t. silent (SendTransaction L c ctx t)),
      TransactionReceipt = (\<lambda>c ctx h.
        recording (\<lambda>r. Ev_TransactionReceipt h (fst r) (snd r)) (TransactionReceipt L c ctx h)),
      HexToAddress = HexToAddress L,
      HexToHash = HexToHash L,
      Block_Hash = Block_Hash L,
      Transaction_Hash = Transaction_Hash L,
      HexToECDSA = HexToECDSA L,
      Public_ECDSA = Public_ECDSA L,
      PubkeyToAddress = PubkeyToAddress L,
      hexutil_Decode = hexutil_Decode L,
      NewContractCreation = NewContractCreation L,
      SignTx = SignTx L,
      Println = (\<lambda>line (w, tr). (Println L line w, tr)),
      select_Done_After = (\<lambda>ctx d. recording (Ev_select d) (select_Done_After L ctx d)),
      ctx_Err = (\<lambda>ctx (w, tr). ctx_Err L ctx w)\<rparr>"

text \<open>What the claims read off a recorded call.\<close>

fun is_attempt :: "'rc event \<Rightarrow> bool" where
  "is_attempt (Ev_TransactionReceipt h r e) = True"
| "is_attempt _ = False"

fun attempt_failed :: "'rc event \<Rightarrow> bool" where
  "attempt_failed (Ev_TransactionReceipt h r e) = (e \<noteq> None)"
| "attempt_failed _ = False"

fun attempt_succeeded :: "'rc event \<Rightarrow> bool" where
  "attempt_succeeded (Ev_TransactionReceipt h r e) = (e = None)"
| "attempt_succeeded _ = False"

fun attempt_receipt :: "'rc event \<Rightarrow> 'rc option" where
  "attempt_receipt (Ev_TransactionReceipt h r e) = r"
| "attempt_receipt _ = None"

fun attempt_error :: "'rc event \<Rightarrow> error option" where
  "attempt_error (Ev_TransactionReceipt h r e) = e"
| "attempt_error _ = None"

fun is_wait :: "'rc event \<Rightarrow> bool" where
  "is_wait (Ev_select d fired) = True"
| "is_wait _ = False"

fun wait_cancelled :: "'rc event \<Rightarrow> bool" where
  "wait_cancelled (Ev_select d fired) = fired"
| "wait_cancelled _ = False"

fun wait_duration :: "'rc event \<Rightarrow> Duration" where
  "wait_duration (Ev_select d fired) = d"
| "wait_duration _ = 0"

definition attempts :: "'rc event list \<Rightarrow> nat" where
  "attempts tr = length (filter is_attempt tr)"

definition polling_calls where
  \<comment> \<open>the calls that one run of \<^verbatim>\<open>WaitForReceipt\<close> makes, in order\<close>
  "polling_calls L rpc ctx tx w = snd (snd (WaitForReceipt (traced L) rpc ctx tx (w, [])))"

definition GetID_calls where
  \<comment> \<open>the calls that one run of \<^verbatim>\<open>GetID\<close> makes, in order\<close>
  "GetID_calls L rpc ctx w = snd (snd (GetID (traced L) rpc ctx (w, [])))"

text \<open>
  The runs of the polling loop from counter \<open>i\<close>, as lists of calls with the result
  returned: a receipt query that succeeds ends the run; one that fails ends it when
  \<open>i\<close> has reached 5, and is otherwise followed by a \<^verbatim>\<open>select\<close> that either ends
  the run with the context's error \<open>cerr\<close> or leads to the run from \<open>i + 1\<close>.
\<close>

inductive poll_run ::
  "error option \<Rightarrow> hash \<Rightarrow> nat \<Rightarrow> 'rc event list \<Rightarrow> 'rc option \<times> error option \<Rightarrow> bool"
  for cerr :: "error option" and h :: hash where
  run_success: "poll_run cerr h i [Ev_TransactionReceipt h r None] (r, None)"
| run_exhausted: "i \<ge> 5 \<Longrightarrow>
    poll_run cerr h i [Ev_TransactionReceipt h r (Some e)]
      (None, Some (ErrorsNew (Sprintf_s ''Cannot get the receipt:'' e)))"
| run_cancelled: "i < 5 \<Longrightarrow>
    poll_run cerr h i [Ev_TransactionReceipt h r (Some e), Ev_select (2 * Second) True] (None, cerr)"
| run_retry: "i < 5 \<Longrightarrow> poll_run cerr h (i + 1) rest res \<Longrightarrow>
    poll_run cerr h i (Ev_TransactionReceipt h r (Some e) # Ev_select (2 * Second) False # rest) res"

code_pred poll_run .

section \<open>The library at successive attempts\<close>

text \<open>
  What the library does when it is asked again and again, told without the polling
  function. \<open>retried\<close> holds at a world where the receipt query fails and the
  \<^verbatim>\<open>select\<close> after it runs its full time; \<open>next_round\<close> is the world after that
  query and that wait; \<open>world_at_attempt k\<close> is the world after \<open>k\<close> such rounds, the
  world in which attempt number \<open>k\<close> (counted from 0) is made.
\<close>

definition retried where
  "retried L rpc ctx tx w =
     (case TransactionReceipt L (client rpc) ctx (Transaction_Hash L tx) w of
        ((receipt, err), w1) \<Rightarrow> err \<noteq> None \<and> \<not> fst (select_Done_After L ctx (2 * Second) w1))"

definition next_round where
  "next_round L rpc ctx tx w =
     snd (select_Done_After L ctx (2 * Second)
            (snd (TransactionReceipt L (client rpc) ctx (Transaction_Hash L tx) w)))"

fun world_at_attempt where
  "world_at_attempt L rpc ctx tx 0 w = w"
| "world_at_attempt L rpc ctx tx (Suc k) w =
     world_at_attempt L rpc ctx tx k (next_round L rpc ctx tx w)"

section \<open>A node to run the package against\<close>

text \<open>
  A stand-in for the library, used to run the functions on concrete inputs. Its world
  is the number of calls made so far. The receipt is there from tick \<open>mined_at\<close> on,
  and the context is done from tick \<open>cancel_at\<close> on. A transaction is the tuple of
  what \<^verbatim>\<open>NewContractCreation\<close> receives together with the key that signed it.
\<close>

type_synonym node_tx = "64 word \<times> big_Int \<times> 64 word \<times> big_Int \<times> bytes \<times> string option"

definition node ::
  "nat \<Rightarrow> nat \<Rightarrow> (nat, unit, unit, hash, node_tx, hash, unit, string, string) library" where
  "node mined_at cancel_at =
     \<lparr>Dial = (\<lambda>rawurl t. (((), if rawurl = [] then Some (LibError ''dial: empty URL'') else None), Suc t)),
      BalanceAt = (\<lambda>c ctx a n t. ((Some 7, None), Suc t)),
      CodeAt = (\<lambda>c ctx a n t. (([], None), Suc t)),
      BlockByNumber = (\<lambda>c ctx n t. ((Some 0x2A, None), Suc t)),
      TransactionByHash = (\<lambda>c ctx h t. ((None, False, Some (LibError ''not found'')), Suc t)),
      SnapshotAt = (\<lambda>c ctx n t. ((Some (), None), Suc t)),
      NetworkID_of = (\<lambda>c ctx t. ((Some 31337, None), Suc t)),
      ChainID_of = (\<lambda>c ctx t. ((Some 31337, None), Suc t)),
      SuggestGasPrice = (\<lambda>c ctx t. ((Some 2000000000, None), Suc t)),
      PendingNonceAt = (\<lambda>c ctx a t. ((3, None), Suc t)),
      SendTransaction = (\<lambda>c ctx tx t. (None, Suc t)),
      TransactionReceipt = (\<lambda>c ctx h t.
        (if mined_at \<le> t then (Some h, None) else (None, Some (LibError ''not found'')), Suc t)),
      HexToAddress = (\<lambda>s. 0),
      HexToHash = (\<lambda>s. 0),
      Block_Hash = (\<lambda>b. b),
      Transaction_Hash = (\<lambda>tx. 0x99),
      HexToECDSA = (\<lambda>s. (s, if length s = 4 then None else Some (LibError ''invalid length''))),
      Public_ECDSA = (\<lambda>k. Some k),
      PubkeyToAddress = (\<lambda>p. 0xF0),
      hexutil_Decode = (\<lambda>s. if take 2 s = ''0x'' then ([0x60, 0x80], None)
                              else ([], Some (LibError ''hex string without 0x prefix''))),
      NewContractCreation = (\<lambda>nonce amount gasLimit gasPrice data.
        (nonce, amount, gasLimit, gasPrice, data, None)),
      SignTx = (\<lambda>tx s k. case tx of (nonce, amount, gasLimit, gasPrice, data, sig) \<Rightarrow>
        (Some (nonce, amount, gasLimit, gasPrice, data, Some k), None)),
      Println = (\<lambda>line t. Suc t),
      select_Done_After = (\<lambda>ctx d t. (cancel_at \<le> t, Suc t)),
      ctx_Err = (\<lambda>ctx t. if cancel_at < t then Some (LibError ''context canceled'') else None)\<rparr>"

definition unreachable_node ::
  "(nat, unit, unit, hash, node_tx, hash, unit, string, string) library" where
  \<comment> \<open>a node whose queries all fail\<close>
  "unreachable_node = (node 100 100)
     \<lparr>BalanceAt := (\<lambda>c ctx a n t. ((None, Some (LibError ''connection refused'')), Suc t)),
      BlockByNumber := (\<lambda>c ctx n t. ((None, Some (LibError ''connection refused'')), Suc t)),
      NetworkID_of := (\<lambda>c ctx t. ((Some 5, Some (LibError ''connection refused'')), Suc t)),
      ChainID_of := (\<lambda>c ctx t. ((None, Some (LibError ''connection refused'')), Suc t))\<rparr>"

definition rpc0 :: "unit RPCClient" where
  "rpc0 = \<lparr>url = ''http://localhost:8545'', client = ()\<rparr>"

definition tx0 :: node_tx where
  "tx0 = (3, Some 0, 2000000, Some 2000000000, [0x60, 0x80], Some ''beef'')"

section \<open>The resolution table\<close>

text \<open>
  C5. \<^verbatim>\<open>NetworkURL\<close> resolves the five named networks: testnet, mainnet, localhost,
  ethereum and ropsten each give the endpoint URL of the table.
\<close>

theorem NetworkURL_table:
  "NetworkURL ''testnet'' = ''https://testnet-rpc.gochain.io'' \<and>
   NetworkURL ''mainnet'' = ''https://rpc.gochain.io'' \<and>
   NetworkURL ''localhost'' = ''http://localhost:8545'' \<and>
   NetworkURL ''ethereum'' = ''https://main-rpc.linkpool.io'' \<and>
   NetworkURL ''ropsten'' = ''https://ropsten-rpc.linkpool.io''"
  by (simp add: NetworkURL_def)

text \<open>
  C10. The empty network name resolves to the mainnet URL, and every name outside the
  six recognised ones (testnet, mainnet, the empty name, localhost, ethereum, ropsten)
  resolves to the empty string.
\<close>

theorem NetworkURL_default:
  "NetworkURL '''' = ''https://rpc.gochain.io'' \<and>
   (\<forall>network. network \<notin> {''testnet'', ''mainnet'', '''', ''localhost'', ''ethereum'', ''ropsten''}
      \<longrightarrow> NetworkURL network = '''')"
  by (simp add: NetworkURL_def)

theorem NetworkURL_default_witness:
  "''kovan'' \<notin> {''testnet'', ''mainnet'', '''', ''localhost'', ''ethereum'', ''ropsten''} \<and>
   NetworkURL ''kovan'' = ''''"
proof -
  have out: "''kovan'' \<notin> {''testnet'', ''mainnet'', '''', ''localhost'', ''ethereum'', ''ropsten''}"
    by simp
  have "NetworkURL ''kovan'' = ''''"
    by (rule NetworkURL_default [THEN conjunct2, rule_format, OF out])
  with out show ?thesis by (rule conjI)
qed


section \<open>The polling loop, call by call\<close>

text \<open>One round of the loop over a recording library, case by case.\<close>

lemma traced_sel [simp]:
  "TransactionReceipt (traced L) c ctx h =
     recording (\<lambda>r. Ev_TransactionReceipt h (fst r) (snd r)) (TransactionReceipt L c ctx h)"
  "select_Done_After (traced L) ctx d = recording (Ev_select d) (select_Done_After L ctx d)"
  "ctx_Err (traced L) ctx (w, tr) = ctx_Err L ctx w"
  "Transaction_Hash (traced L) = Transaction_Hash L"
  by (simp_all add: traced_def)

lemma traced_loop_success:
  "TransactionReceipt L (client rpc) ctx (Transaction_Hash L tx) w = ((r, None), w1) \<Longrightarrow>
   WaitForReceipt_loop (traced L) rpc ctx tx i (w, tr0) =
     ((r, None), (w1, tr0 @ [Ev_TransactionReceipt (Transaction_Hash L tx) r None]))"
  by (subst WaitForReceipt_loop.simps) (simp add: recording_def)

lemma traced_loop_exhausted:
  "TransactionReceipt L (client rpc) ctx (Transaction_Hash L tx) w = ((r, Some e), w1) \<Longrightarrow>
   i \<ge> 5 \<Longrightarrow>
   WaitForReceipt_loop (traced L) rpc ctx tx i (w, tr0) =
     ((None, Some (ErrorsNew (Sprintf_s ''Cannot get the receipt:'' e))),
      (w1, tr0 @ [Ev_TransactionReceipt (Transaction_Hash L tx) r (Some e)]))"
  by (subst WaitForReceipt_loop.simps) (simp add: recording_def)

lemma traced_loop_cancelled:
  "TransactionReceipt L (client rpc) ctx (Transaction_Hash L tx) w = ((r, Some e), w1) \<Longrightarrow>
   i < 5 \<Longrightarrow> select_Done_After L ctx (2 * Second) w1 = (True, w2) \<Longrightarrow>
   WaitForReceipt_loop (traced L) rpc ctx tx i (w, tr0) =
     ((None, ctx_Err L ctx w2),
      (w2, tr0 @ [Ev_TransactionReceipt (Transaction_Hash L tx) r (Some e),
                  Ev_select (2 * Second) True]))"
  by (subst WaitForReceipt_loop.simps) (simp add: recording_def)

lemma traced_loop_retry:
  "TransactionReceipt L (client rpc) ctx (Transaction_Hash L tx) w = ((r, Some e), w1) \<Longrightarrow>
   i < 5 \<Longrightarrow> select_Done_After L ctx (2 * Second) w1 = (False, w2) \<Longrightarrow>
   WaitForReceipt_loop (traced L) rpc ctx tx i (w, tr0) =
     WaitForReceipt_loop (traced L) rpc ctx tx (i + 1)
       (w2, tr0 @ [Ev_TransactionReceipt (Transaction_Hash L tx) r (Some e),
                   Ev_select (2 * Second) False])"
  by (subst WaitForReceipt_loop.simps) (simp add: recording_def)

lemma loop_run:
  "WaitForReceipt_loop (traced L) rpc ctx tx i (w, tr0) = (res, (w', tr)) \<Longrightarrow>
   \<exists>new. tr = tr0 @ new \<and> poll_run (ctx_Err L ctx w') (Transaction_Hash L tx) i new res"
proof (induction "6 - i" arbitrary: i w tr0)
  case 0
  then have big: "i \<ge> 5" by simp
  obtain r e w1 where call: "TransactionReceipt L (client rpc) ctx (Transaction_Hash L tx) w = ((r, e), w1)"
    by (metis prod.exhaust)
  show ?case
  proof (cases e)
    case None
    with call "0.prems" show ?thesis
      by (auto simp: traced_loop_success intro: poll_run.intros)
  next
    case (Some err)
    with call big "0.prems" show ?thesis
      by (auto simp: traced_loop_exhausted intro: poll_run.intros)
  qed
next
  case (Suc n)
  obtain r e w1 where call: "TransactionReceipt L (client rpc) ctx (Transaction_Hash L tx) w = ((r, e), w1)"
    by (metis prod.exhaust)
  show ?case
  proof (cases e)
    case None
    with call Suc.prems show ?thesis
      by (auto simp: traced_loop_success intro: poll_run.intros)
  next
    case (Some err)
    note err = this
    show ?thesis
    proof (cases "i \<ge> 5")
      case True
      with call err Suc.prems show ?thesis
        by (auto simp: traced_loop_exhausted intro: poll_run.intros)
    next
      case False
      then have small: "i < 5" by simp
      obtain fired w2 where sel: "select_Done_After L ctx (2 * Second) w1 = (fired, w2)"
        by (metis prod.exhaust)
      show ?thesis
      proof (cases fired)
        case True
        with call err small sel Suc.prems show ?thesis
          by (auto simp: traced_loop_cancelled intro: poll_run.intros)
      next
        case False
        with call err small sel Suc.prems
        have rec: "WaitForReceipt_loop (traced L) rpc ctx tx (i + 1)
            (w2, tr0 @ [Ev_TransactionReceipt (Transaction_Hash L tx) r (Some err),
                        Ev_select (2 * Second) False]) = (res, (w', tr))"
          by (simp add: traced_loop_retry)
        from Suc.hyps(2) have "n = 6 - (i + 1)" by simp
        from Suc.hyps(1) [OF this rec] obtain new where
          new: "tr = (tr0 @ [Ev_TransactionReceipt (Transaction_Hash L tx) r (Some err),
                        Ev_select (2 * Second) False]) @ new"
          and run: "poll_run (ctx_Err L ctx w') (Transaction_Hash L tx) (i + 1) new res"
          by blast
        from run_retry [OF small run]
        have "poll_run (ctx_Err L ctx w') (Transaction_Hash L tx) i
           (Ev_TransactionReceipt (Transaction_Hash L tx) r (Some err) #
            Ev_select (2 * Second) False # new) res" .
        with new show ?thesis by simp
      qed
    qed
  qed
qed


lemma poll_run_nonempty: "poll_run cerr h i tr res \<Longrightarrow> tr \<noteq> []"
  by (induction rule: poll_run.induct) simp_all

lemma poll_run_gives_up:
  "poll_run cerr h i tr res \<Longrightarrow> i \<le> 5 \<Longrightarrow>
   \<forall>ev \<in> set tr. \<not> attempt_succeeded ev \<and> \<not> wait_cancelled ev \<Longrightarrow>
   attempts tr = 6 - i \<and>
   (\<exists>e. attempt_error (last tr) = Some e \<and>
        res = (None, Some (ErrorsNew (Sprintf_s ''Cannot get the receipt:'' e))))"
proof (induction rule: poll_run.induct)
  case (run_retry i rest res r e)
  then have "attempts rest = 6 - (i + 1)" and
    "\<exists>e. attempt_error (last rest) = Some e \<and>
        res = (None, Some (ErrorsNew (Sprintf_s ''Cannot get the receipt:'' e)))"
    by simp_all
  moreover have "rest \<noteq> []" using run_retry.hyps(2) by (rule poll_run_nonempty)
  ultimately show ?case using run_retry.hyps(1) by (simp add: attempts_def)
qed (simp_all add: attempts_def)

lemma poll_run_cancel_last:
  "poll_run cerr h i tr res \<Longrightarrow> k < length tr \<Longrightarrow> wait_cancelled (tr ! k) \<Longrightarrow>
   Suc k = length tr \<and> res = (None, cerr)"
proof (induction arbitrary: k rule: poll_run.induct)
  case (run_retry i rest res r e)
  show ?case
  proof (cases k)
    case 0
    with run_retry.prems show ?thesis by simp
  next
    case (Suc k1)
    show ?thesis
    proof (cases k1)
      case 0
      with Suc run_retry.prems show ?thesis by simp
    next
      case (Suc k2)
      with \<open>k = Suc k1\<close> run_retry.prems run_retry.IH [of k2] show ?thesis by simp
    qed
  qed
next
  case (run_cancelled i r e)
  then show ?case by (cases k) (simp_all add: less_Suc_eq)
qed simp_all

lemma poll_run_alternates:
  "poll_run cerr h i tr res \<Longrightarrow> k < length tr \<Longrightarrow>
   (even k \<longrightarrow> is_attempt (tr ! k)) \<and>
   (odd k \<longrightarrow> is_wait (tr ! k) \<and> wait_duration (tr ! k) = 2 * Second)"
proof (induction arbitrary: k rule: poll_run.induct)
  case (run_retry i rest res r e)
  show ?case
  proof (cases k)
    case 0
    then show ?thesis by simp
  next
    case (Suc k1)
    show ?thesis
    proof (cases k1)
      case 0
      with Suc show ?thesis by simp
    next
      case (Suc k2)
      with \<open>k = Suc k1\<close> run_retry.prems run_retry.IH [of k2] show ?thesis by simp
    qed
  qed
next
  case (run_cancelled i r e)
  then show ?case by (cases k) (simp_all add: less_Suc_eq)
qed simp_all

lemma poll_run_bound:
  "poll_run cerr h i tr res \<Longrightarrow> i \<le> 5 \<Longrightarrow> attempts tr \<le> 6 - i"
  by (induction rule: poll_run.induct) (simp_all add: attempts_def)


lemma loop_success:
  "TransactionReceipt L (client rpc) ctx (Transaction_Hash L tx) w = ((r, None), w1) \<Longrightarrow>
   WaitForReceipt_loop L rpc ctx tx i w = ((r, None), w1)"
  by (subst WaitForReceipt_loop.simps) simp

lemma loop_exhausted:
  "TransactionReceipt L (client rpc) ctx (Transaction_Hash L tx) w = ((r, Some e), w1) \<Longrightarrow>
   i \<ge> 5 \<Longrightarrow>
   WaitForReceipt_loop L rpc ctx tx i w =
     ((None, Some (ErrorsNew (Sprintf_s ''Cannot get the receipt:'' e))), w1)"
  by (subst WaitForReceipt_loop.simps) simp

lemma loop_cancelled:
  "TransactionReceipt L (client rpc) ctx (Transaction_Hash L tx) w = ((r, Some e), w1) \<Longrightarrow>
   i < 5 \<Longrightarrow> select_Done_After L ctx (2 * Second) w1 = (True, w2) \<Longrightarrow>
   WaitForReceipt_loop L rpc ctx tx i w = ((None, ctx_Err L ctx w2), w2)"
  by (subst WaitForReceipt_loop.simps) simp

lemma loop_retry:
  "TransactionReceipt L (client rpc) ctx (Transaction_Hash L tx) w = ((r, Some e), w1) \<Longrightarrow>
   i < 5 \<Longrightarrow> select_Done_After L ctx (2 * Second) w1 = (False, w2) \<Longrightarrow>
   WaitForReceipt_loop L rpc ctx tx i w = WaitForReceipt_loop L rpc ctx tx (i + 1) w2"
  by (subst WaitForReceipt_loop.simps) simp

lemma loop_retried:
  "retried L rpc ctx tx w \<Longrightarrow> i < 5 \<Longrightarrow>
   WaitForReceipt_loop L rpc ctx tx i w =
     WaitForReceipt_loop L rpc ctx tx (i + 1) (next_round L rpc ctx tx w)"
  by (subst WaitForReceipt_loop.simps)
     (auto simp: retried_def next_round_def split: prod.splits option.splits bool.splits)

lemma loop_reaches:
  "\<forall>j<k. retried L rpc ctx tx (world_at_attempt L rpc ctx tx j w) \<Longrightarrow> i + k \<le> 5 \<Longrightarrow>
   WaitForReceipt_loop L rpc ctx tx i w =
     WaitForReceipt_loop L rpc ctx tx (i + k) (world_at_attempt L rpc ctx tx k w)"
proof (induction k arbitrary: i w)
  case 0
  show ?case by simp
next
  case (Suc k)
  from Suc.prems(1) have first: "retried L rpc ctx tx w"
    by (metis world_at_attempt.simps(1) zero_less_Suc)
  have later: "\<forall>j<k. retried L rpc ctx tx
      (world_at_attempt L rpc ctx tx j (next_round L rpc ctx tx w))"
  proof (intro allI impI)
    fix j assume "j < k"
    then have "Suc j < Suc k" by simp
    with Suc.prems(1) have "retried L rpc ctx tx (world_at_attempt L rpc ctx tx (Suc j) w)"
      by blast
    then show "retried L rpc ctx tx (world_at_attempt L rpc ctx tx j (next_round L rpc ctx tx w))"
      by simp
  qed
  from Suc.prems(2) have small: "i < 5" and bound: "(i + 1) + k \<le> 5" by simp_all
  from loop_retried [OF first small] Suc.IH [OF later bound]
  show ?case by simp
qed

lemma WaitForReceipt_exhausted:
  assumes "\<forall>j<5. retried L rpc ctx tx (world_at_attempt L rpc ctx tx j w)"
    and "TransactionReceipt L (client rpc) ctx (Transaction_Hash L tx)
           (world_at_attempt L rpc ctx tx 5 w) = ((receipt, Some e), w')"
  shows "WaitForReceipt L rpc ctx tx w =
           ((None, Some (ErrorsNew (Sprintf_s ''Cannot get the receipt:'' e))), w')"
proof -
  have "0 + 5 \<le> (5::nat)" by simp
  from loop_reaches [OF assms(1) this] loop_exhausted [OF assms(2), of 5]
  show ?thesis by (simp add: WaitForReceipt_def)
qed

lemma traced_loop_untraced:
  "WaitForReceipt_loop (traced L) rpc ctx tx i (w, tr0) = (res, (w', tr)) \<Longrightarrow>
   WaitForReceipt_loop L rpc ctx tx i w = (res, w')"
proof (induction "6 - i" arbitrary: i w tr0)
  case 0
  then have big: "i \<ge> 5" by simp
  obtain r e w1 where call: "TransactionReceipt L (client rpc) ctx (Transaction_Hash L tx) w = ((r, e), w1)"
    by (metis prod.exhaust)
  show ?case
  proof (cases e)
    case None
    with call "0.prems" show ?thesis
      by (auto simp: traced_loop_success loop_success)
  next
    case (Some err)
    with call big "0.prems" show ?thesis
      by (auto simp: traced_loop_exhausted loop_exhausted)
  qed
next
  case (Suc n)
  obtain r e w1 where call: "TransactionReceipt L (client rpc) ctx (Transaction_Hash L tx) w = ((r, e), w1)"
    by (metis prod.exhaust)
  show ?case
  proof (cases e)
    case None
    with call Suc.prems show ?thesis
      by (auto simp: traced_loop_success loop_success)
  next
    case (Some err)
    note err = this
    show ?thesis
    proof (cases "i \<ge> 5")
      case True
      with call err Suc.prems show ?thesis
        by (auto simp: traced_loop_exhausted loop_exhausted)
    next
      case False
      then have small: "i < 5" by simp
      obtain fired w2 where sel: "select_Done_After L ctx (2 * Second) w1 = (fired, w2)"
        by (metis prod.exhaust)
      show ?thesis
      proof (cases fired)
        case True
        with call err small sel Suc.prems show ?thesis
          by (auto simp: traced_loop_cancelled loop_cancelled)
      next
        case False
        with call err small sel Suc.prems
        have rec: "WaitForReceipt_loop (traced L) rpc ctx tx (i + 1)
            (w2, tr0 @ [Ev_TransactionReceipt (Transaction_Hash L tx) r (Some err),
                        Ev_select (2 * Second) False]) = (res, (w', tr))"
          by (simp add: traced_loop_retry)
        from Suc.hyps(2) have "n = 6 - (i + 1)" by simp
        from Suc.hyps(1) [OF this rec]
        have "WaitForReceipt_loop L rpc ctx tx (i + 1) w2 = (res, w')" .
        with call err small sel False show ?thesis
          by (simp add: loop_retry)
      qed
    qed
  qed
qed

lemma attempt_failed_iff [simp]: "(is_attempt ev \<longrightarrow> attempt_failed ev) = (\<not> attempt_succeeded ev)"
  by (cases ev) simp_all

lemma poll_run_last_failed:
  "poll_run cerr h i tr res \<Longrightarrow> attempt_error (last tr) = Some e \<Longrightarrow>
   res = (None, Some (ErrorsNew (Sprintf_s ''Cannot get the receipt:'' e)))"
proof (induction rule: poll_run.induct)
  case (run_retry i rest res r e')
  from run_retry.hyps(2) have "rest \<noteq> []" by (rule poll_run_nonempty)
  with run_retry show ?case by simp
qed simp_all

lemma polling_run:
  "poll_run (ctx_Err L ctx (snd (WaitForReceipt L rpc ctx tx w))) (Transaction_Hash L tx) 0
     (polling_calls L rpc ctx tx w) (fst (WaitForReceipt L rpc ctx tx w))"
proof -
  obtain res w' tr where
    run: "WaitForReceipt_loop (traced L) rpc ctx tx 0 (w, []) = (res, (w', tr))"
    by (metis prod.exhaust)
  from traced_loop_untraced [OF run] have plain: "WaitForReceipt L rpc ctx tx w = (res, w')"
    by (simp add: WaitForReceipt_def)
  from loop_run [OF run] have "poll_run (ctx_Err L ctx w') (Transaction_Hash L tx) 0 tr res"
    by simp
  with run plain show ?thesis
    by (simp add: polling_calls_def WaitForReceipt_def)
qed

lemma two_seconds: "sint (2 * Second) = 2000000000"
  by (simp add: Second_def)

text \<open>The polling loop on the stand-in node, in the three ways it can end.\<close>

lemma node_polling_never_mined:
  "polling_calls (node 100 100) rpc0 () tx0 0 =
     [Ev_TransactionReceipt 0x99 None (Some (LibError ''not found'')), Ev_select (2 * Second) False,
      Ev_TransactionReceipt 0x99 None (Some (LibError ''not found'')), Ev_select (2 * Second) False,
      Ev_TransactionReceipt 0x99 None (Some (LibError ''not found'')), Ev_select (2 * Second) False,
      Ev_TransactionReceipt 0x99 None (Some (LibError ''not found'')), Ev_select (2 * Second) False,
      Ev_TransactionReceipt 0x99 None (Some (LibError ''not found'')), Ev_select (2 * Second) False,
      Ev_TransactionReceipt 0x99 None (Some (LibError ''not found''))]"
  by (simp add: polling_calls_def WaitForReceipt_def WaitForReceipt_loop.simps node_def
      traced_def recording_def rpc0_def)

lemma node_next_round: "next_round (node m c) rpc0 () tx0 t = Suc (Suc t)"
  by (simp add: next_round_def node_def)

lemma node_world_at: "world_at_attempt (node m c) rpc0 () tx0 k t = t + 2 * k"
  by (induction k arbitrary: t) (simp_all add: node_next_round)

lemma node_retried: "retried (node m c) rpc0 () tx0 t = (t < m \<and> Suc t < c)"
  by (auto simp: retried_def node_def)

lemma node_polling_cancelled:
  "polling_calls (node 100 3) rpc0 () tx0 0 =
     [Ev_TransactionReceipt 0x99 None (Some (LibError ''not found'')), Ev_select (2 * Second) False,
      Ev_TransactionReceipt 0x99 None (Some (LibError ''not found'')), Ev_select (2 * Second) True]"
  by (simp add: polling_calls_def WaitForReceipt_def WaitForReceipt_loop.simps node_def
      traced_def recording_def rpc0_def)

section \<open>Giving up, succeeding, being cancelled\<close>

text \<open>
  C1, as the code has it. When every receipt query of a run fails and no wait is cut
  short by the context, \<^verbatim>\<open>WaitForReceipt\<close> queries six times, for \<open>i\<close> from 0 to 5
  (the first attempt and five retries), and then returns a \<^verbatim>\<open>nil\<close> receipt with a
  new error whose text is \<^verbatim>\<open>Cannot get the receipt:\<close> followed by the text of the last
  query's error.
\<close>

theorem WaitForReceipt_gives_up:
  assumes "\<forall>ev \<in> set (polling_calls L rpc ctx tx w).
             (is_attempt ev \<longrightarrow> attempt_failed ev) \<and> \<not> wait_cancelled ev"
  shows "attempts (polling_calls L rpc ctx tx w) = 6 \<and>
         (\<exists>e. attempt_error (last (polling_calls L rpc ctx tx w)) = Some e \<and>
              fst (WaitForReceipt L rpc ctx tx w) =
                (None, Some (ErrorsNew (Sprintf_s ''Cannot get the receipt:'' e))))"
  using poll_run_gives_up [OF polling_run, of L rpc ctx tx w] assms by simp

theorem WaitForReceipt_gives_up_witness:
  "list_all (\<lambda>ev. (is_attempt ev \<longrightarrow> attempt_failed ev) \<and> \<not> wait_cancelled ev)
     (polling_calls (node 100 100) rpc0 () tx0 0) \<and>
   attempts (polling_calls (node 100 100) rpc0 () tx0 0) = 6 \<and>
   fst (WaitForReceipt (node 100 100) rpc0 () tx0 0) =
     (None, Some (ErrorsNew ''Cannot get the receipt:not found''))"
proof -
  have quiet: "\<forall>ev \<in> set (polling_calls (node 100 100) rpc0 () tx0 0).
      (is_attempt ev \<longrightarrow> attempt_failed ev) \<and> \<not> wait_cancelled ev"
    by (simp add: node_polling_never_mined)
  from WaitForReceipt_gives_up [OF quiet] quiet show ?thesis
    by (auto simp: node_polling_never_mined Sprintf_s_def list_all_iff)
qed

text \<open>
  Against a node that never has the receipt and a context that is never done, every
  query fails and the run holds six of them, not five.
\<close>

theorem WaitForReceipt_five_attempts_counterexample:
  "list_all attempt_failed (filter is_attempt (polling_calls (node 100 100) rpc0 () tx0 0)) \<and>
   list_all (\<lambda>ev. \<not> wait_cancelled ev) (polling_calls (node 100 100) rpc0 () tx0 0) \<and>
   attempts (polling_calls (node 100 100) rpc0 () tx0 0) = 6 \<and>
   attempts (polling_calls (node 100 100) rpc0 () tx0 0) \<noteq> 5"
  by (simp add: node_polling_never_mined attempts_def)

text \<open>
  C3. \<^verbatim>\<open>WaitForReceipt\<close> succeeds once the underlying call succeeds. For every attempt
  number \<open>k\<close> within the retry bound (0 to 5): when the \<open>k\<close> earlier queries fail with
  their waits running full time, and the library's receipt query at attempt \<open>k\<close> returns
  a receipt without error, \<^verbatim>\<open>WaitForReceipt\<close> returns that receipt with a \<^verbatim>\<open>nil\<close> error,
  in the world that this query leaves: nothing is called after it.
\<close>

theorem WaitForReceipt_succeeds:
  assumes "k \<le> 5"
    and "\<forall>j<k. retried L rpc ctx tx (world_at_attempt L rpc ctx tx j w)"
    and "TransactionReceipt L (client rpc) ctx (Transaction_Hash L tx)
           (world_at_attempt L rpc ctx tx k w) = ((receipt, None), w')"
  shows "WaitForReceipt L rpc ctx tx w = ((receipt, None), w')"
proof -
  from assms(1) have "0 + k \<le> 5" by simp
  from loop_reaches [OF assms(2) this] loop_success [OF assms(3)]
  show ?thesis by (simp add: WaitForReceipt_def)
qed

theorem WaitForReceipt_succeeds_witness:
  "(2::nat) \<le> 5 \<and>
   list_all (\<lambda>j. retried (node 4 100) rpc0 () tx0 (world_at_attempt (node 4 100) rpc0 () tx0 j 0))
     [0, 1] \<and>
   TransactionReceipt (node 4 100) (client rpc0) () (Transaction_Hash (node 4 100) tx0)
     (world_at_attempt (node 4 100) rpc0 () tx0 2 0) = ((Some 0x99, None), 5) \<and>
   WaitForReceipt (node 4 100) rpc0 () tx0 0 = ((Some 0x99, None), 5)"
proof -
  have bound: "(2::nat) \<le> 5" by simp
  have before: "\<forall>j<2. retried (node 4 100) rpc0 () tx0
      (world_at_attempt (node 4 100) rpc0 () tx0 j 0)"
    by (simp add: node_world_at node_retried)
  have now: "TransactionReceipt (node 4 100) (client rpc0) () (Transaction_Hash (node 4 100) tx0)
     (world_at_attempt (node 4 100) rpc0 () tx0 2 0) = ((Some 0x99, None), 5)"
    by (simp add: node_world_at) (simp add: node_def)
  from WaitForReceipt_succeeds [OF bound before now] before now show ?thesis
    by (simp add: node_world_at node_retried)
qed

text \<open>
  C4. Whenever the context is done during a wait between two attempts, that wait is the
  last call of the run: no further query is made, and \<^verbatim>\<open>WaitForReceipt\<close> returns a
  \<^verbatim>\<open>nil\<close> receipt with \<^verbatim>\<open>ctx.Err()\<close>.
\<close>

theorem WaitForReceipt_cancelled:
  assumes "k < length (polling_calls L rpc ctx tx w)"
    and "wait_cancelled (polling_calls L rpc ctx tx w ! k)"
  shows "Suc k = length (polling_calls L rpc ctx tx w) \<and>
         fst (WaitForReceipt L rpc ctx tx w) =
           (None, ctx_Err L ctx (snd (WaitForReceipt L rpc ctx tx w)))"
  using poll_run_cancel_last [OF polling_run assms] .

theorem WaitForReceipt_cancelled_witness:
  "3 < length (polling_calls (node 100 3) rpc0 () tx0 0) \<and>
   wait_cancelled (polling_calls (node 100 3) rpc0 () tx0 0 ! 3) \<and>
   Suc 3 = length (polling_calls (node 100 3) rpc0 () tx0 0) \<and>
   fst (WaitForReceipt (node 100 3) rpc0 () tx0 0) = (None, Some (LibError ''context canceled''))"
proof -
  have inside: "3 < length (polling_calls (node 100 3) rpc0 () tx0 0)"
    and fired: "wait_cancelled (polling_calls (node 100 3) rpc0 () tx0 0 ! 3)"
    by (simp_all add: node_polling_cancelled)
  have final: "snd (WaitForReceipt (node 100 3) rpc0 () tx0 0) = 4"
    by (simp add: WaitForReceipt_def WaitForReceipt_loop.simps node_def rpc0_def)
  from WaitForReceipt_cancelled [OF inside fired] inside fired show ?thesis
    by (simp add: node_polling_cancelled final) (simp add: node_def)
qed

text \<open>
  C7. The calls of a run alternate: a receipt query at every even position and a wait
  at every odd one, so that exactly one wait lies between two consecutive queries. Each
  wait is started with the same timer of \<^verbatim>\<open>2 * time.Second\<close>, two thousand million
  nanoseconds.
\<close>

theorem WaitForReceipt_fixed_delay:
  assumes "k < length (polling_calls L rpc ctx tx w)"
  shows "(even k \<longrightarrow> is_attempt (polling_calls L rpc ctx tx w ! k)) \<and>
         (odd k \<longrightarrow> is_wait (polling_calls L rpc ctx tx w ! k) \<and>
                    wait_duration (polling_calls L rpc ctx tx w ! k) = 2 * Second \<and>
                    sint (wait_duration (polling_calls L rpc ctx tx w ! k)) = 2000000000)"
  using poll_run_alternates [OF polling_run assms] two_seconds by simp

theorem WaitForReceipt_fixed_delay_witness:
  "2 < length (polling_calls (node 100 100) rpc0 () tx0 0) \<and>
   is_attempt (polling_calls (node 100 100) rpc0 () tx0 0 ! 0) \<and>
   is_wait (polling_calls (node 100 100) rpc0 () tx0 0 ! 1) \<and>
   sint (wait_duration (polling_calls (node 100 100) rpc0 () tx0 0 ! 1)) = 2000000000 \<and>
   is_attempt (polling_calls (node 100 100) rpc0 () tx0 0 ! 2)"
proof -
  have len: "0 < length (polling_calls (node 100 100) rpc0 () tx0 0)"
    "1 < length (polling_calls (node 100 100) rpc0 () tx0 0)"
    "2 < length (polling_calls (node 100 100) rpc0 () tx0 0)"
    by (simp_all add: node_polling_never_mined)
  from WaitForReceipt_fixed_delay [OF len(1)] WaitForReceipt_fixed_delay [OF len(2)]
    WaitForReceipt_fixed_delay [OF len(3)] len(3)
  show ?thesis by (simp add: two_seconds)
qed

section \<open>The identity query never fails\<close>

lemma traced_GetID_sel [simp]:
  "NetworkID_of (traced L) c ctx = recording (\<lambda>r. Ev_NetworkID (snd r)) (NetworkID_of L c ctx)"
  "ChainID_of (traced L) c ctx = recording (\<lambda>r. Ev_ChainID (snd r)) (ChainID_of L c ctx)"
  "BlockByNumber (traced L) c ctx n =
     recording (\<lambda>r. Ev_BlockByNumber n (snd r)) (BlockByNumber L c ctx n)"
  "Println (traced L) line (w, tr) = (Println L line w, tr)"
  "Block_Hash (traced L) = Block_Hash L"
  by (simp_all add: traced_def)

lemma GetID_error_nil: "snd (fst (GetID L rpc ctx w)) = None"
  by (simp add: GetID_def Let_def split: prod.splits option.splits)

text \<open>
  C9. \<^verbatim>\<open>GetID\<close> never returns an error. Whatever its three queries (network ID, chain
  ID, genesis block) return, it makes exactly these three queries, and returns a record
  that is not \<^verbatim>\<open>nil\<close> with a \<^verbatim>\<open>nil\<close> error; a field whose query failed keeps its zero
  value, the \<^verbatim>\<open>nil\<close> integer or the all-zero hash.
\<close>

theorem GetID_never_fails:
  "\<exists>id e1 e2 e3.
     fst (GetID L rpc ctx w) = (Some id, None) \<and>
     GetID_calls L rpc ctx w = [Ev_NetworkID e1, Ev_ChainID e2, Ev_BlockByNumber (Some 0) e3] \<and>
     (e1 \<noteq> None \<longrightarrow> NetworkID id = None) \<and>
     (e2 \<noteq> None \<longrightarrow> ChainID id = None) \<and>
     (e3 \<noteq> None \<longrightarrow> GenesisHash id = 0)"
  by (simp add: GetID_def GetID_calls_def recording_def ID_zero_def Let_def
      split: prod.splits option.splits)

lemma unreachable_GetID_calls:
  "GetID_calls unreachable_node rpc0 () 0 =
     [Ev_NetworkID (Some (LibError ''connection refused'')),
      Ev_ChainID (Some (LibError ''connection refused'')),
      Ev_BlockByNumber (Some 0) (Some (LibError ''connection refused''))]"
  by (simp add: GetID_calls_def GetID_def unreachable_node_def node_def traced_def recording_def
      rpc0_def Let_def)

theorem GetID_never_fails_witness:
  "GetID_calls unreachable_node rpc0 () 0 =
     [Ev_NetworkID (Some (LibError ''connection refused'')),
      Ev_ChainID (Some (LibError ''connection refused'')),
      Ev_BlockByNumber (Some 0) (Some (LibError ''connection refused''))] \<and>
   fst (GetID unreachable_node rpc0 () 0) =
     (Some \<lparr>NetworkID = None, ChainID = None, GenesisHash = 0\<rparr>, None)"
proof -
  from GetID_never_fails [of unreachable_node rpc0 "()" 0]
  obtain id e1 e2 e3 where
    res: "fst (GetID unreachable_node rpc0 () 0) = (Some id, None)" and
    calls: "GetID_calls unreachable_node rpc0 () 0 =
              [Ev_NetworkID e1, Ev_ChainID e2, Ev_BlockByNumber (Some 0) e3]" and
    zero: "e1 \<noteq> None \<longrightarrow> NetworkID id = None" "e2 \<noteq> None \<longrightarrow> ChainID id = None"
      "e3 \<noteq> None \<longrightarrow> GenesisHash id = 0"
    by blast
  from calls have "e1 \<noteq> None" "e2 \<noteq> None" "e3 \<noteq> None"
    by (auto simp: unreachable_GetID_calls)
  with zero have "NetworkID id = None" "ChainID id = None" "GenesisHash id = 0" by simp_all
  then have "id = \<lparr>NetworkID = None, ChainID = None, GenesisHash = 0\<rparr>" by (cases id) simp
  with res show ?thesis by (simp add: unreachable_GetID_calls)
qed

section \<open>The outcome of a deployment\<close>

lemma Sprintf_s_not_same: "text \<noteq> [] \<Longrightarrow> ErrorsNew (Sprintf_s text e) \<noteq> e"
  by (cases e) (simp_all add: Sprintf_s_def)

text \<open>
  C6. \<^verbatim>\<open>DeployContract\<close> runs its library calls in a row. When every step succeeds
  (key parsing, gas price, pending nonce of the sender's address, decoding of the
  contract data, sending) it returns the signed contract-creation transaction, built
  from that nonce, the value zero, that gas price and the decoded data, with a \<^verbatim>\<open>nil\<close>
  error. When key parsing fails, when the gas-price query fails, when the nonce query
  for the sender's address fails, when decoding fails, or when sending the signed
  transaction fails, it returns a \<^verbatim>\<open>nil\<close> transaction and an error. The key-parsing,
  gas-price and decoding cases need nothing else; the nonce and sending cases name the
  sender's public key, since the call is made with the address derived from it.
\<close>

theorem DeployContract_outcome:
  "(HexToECDSA L (strip_0x privateKeyHex) = (privateKey, None) \<and>
    SuggestGasPrice L (client rpc) ctx w = ((gasPrice, None), w1) \<and>
    Public_ECDSA L privateKey = Some publicKey \<and>
    PendingNonceAt L (client rpc) ctx (PubkeyToAddress L publicKey) w1 = ((nonce, None), w2) \<and>
    hexutil_Decode L contractData = (decoded, None) \<and>
    signedTx = fst (SignTx L (NewContractCreation L nonce (Some 0) 2000000 gasPrice decoded)
                      HomesteadSigner privateKey) \<and>
    SendTransaction L (client rpc) ctx signedTx w2 = (None, w3)
      \<longrightarrow> DeployContract L rpc ctx privateKeyHex contractData w = ((signedTx, None), w3)) \<and>
   (snd (HexToECDSA L (strip_0x privateKeyHex)) \<noteq> None
      \<longrightarrow> (\<exists>e. fst (DeployContract L rpc ctx privateKeyHex contractData w) = (None, Some e))) \<and>
   (snd (fst (SuggestGasPrice L (client rpc) ctx w)) \<noteq> None
      \<longrightarrow> (\<exists>e. fst (DeployContract L rpc ctx privateKeyHex contractData w) = (None, Some e))) \<and>
   (HexToECDSA L (strip_0x privateKeyHex) = (privateKey, key_err) \<and>
    SuggestGasPrice L (client rpc) ctx w = ((gasPrice, gas_err), w1) \<and>
    Public_ECDSA L privateKey = Some publicKey \<and>
    snd (fst (PendingNonceAt L (client rpc) ctx (PubkeyToAddress L publicKey) w1)) \<noteq> None
      \<longrightarrow> (\<exists>e. fst (DeployContract L rpc ctx privateKeyHex contractData w) = (None, Some e))) \<and>
   (snd (hexutil_Decode L contractData) \<noteq> None
      \<longrightarrow> (\<exists>e. fst (DeployContract L rpc ctx privateKeyHex contractData w) = (None, Some e))) \<and>
   (HexToECDSA L (strip_0x privateKeyHex) = (privateKey, key_err) \<and>
    SuggestGasPrice L (client rpc) ctx w = ((gasPrice, gas_err), w1) \<and>
    Public_ECDSA L privateKey = Some publicKey \<and>
    PendingNonceAt L (client rpc) ctx (PubkeyToAddress L publicKey) w1 = ((nonce, nonce_err), w2) \<and>
    hexutil_Decode L contractData = (decoded, data_err) \<and>
    signedTx = fst (SignTx L (NewContractCreation L nonce (Some 0) 2000000 gasPrice decoded)
                      HomesteadSigner privateKey) \<and>
    fst (SendTransaction L (client rpc) ctx signedTx w2) \<noteq> None
      \<longrightarrow> (\<exists>e. fst (DeployContract L rpc ctx privateKeyHex contractData w) = (None, Some e)))"
proof (intro conjI)
  show "HexToECDSA L (strip_0x privateKeyHex) = (privateKey, None) \<and>
    SuggestGasPrice L (client rpc) ctx w = ((gasPrice, None), w1) \<and>
    Public_ECDSA L privateKey = Some publicKey \<and>
    PendingNonceAt L (client rpc) ctx (PubkeyToAddress L publicKey) w1 = ((nonce, None), w2) \<and>
    hexutil_Decode L contractData = (decoded, None) \<and>
    signedTx = fst (SignTx L (NewContractCreation L nonce (Some 0) 2000000 gasPrice decoded)
                      HomesteadSigner privateKey) \<and>
    SendTransaction L (client rpc) ctx signedTx w2 = (None, w3)
      \<longrightarrow> DeployContract L rpc ctx privateKeyHex contractData w = ((signedTx, None), w3)"
    by (auto simp: DeployContract_def Let_def)
next
  show "snd (HexToECDSA L (strip_0x privateKeyHex)) \<noteq> None
      \<longrightarrow> (\<exists>e. fst (DeployContract L rpc ctx privateKeyHex contractData w) = (None, Some e))"
    by (auto simp: DeployContract_def Let_def split: prod.splits option.splits)
next
  show "snd (fst (SuggestGasPrice L (client rpc) ctx w)) \<noteq> None
      \<longrightarrow> (\<exists>e. fst (DeployContract L rpc ctx privateKeyHex contractData w) = (None, Some e))"
    by (auto simp: DeployContract_def Let_def split: prod.splits option.splits)
next
  show "HexToECDSA L (strip_0x privateKeyHex) = (privateKey, key_err) \<and>
    SuggestGasPrice L (client rpc) ctx w = ((gasPrice, gas_err), w1) \<and>
    Public_ECDSA L privateKey = Some publicKey \<and>
    snd (fst (PendingNonceAt L (client rpc) ctx (PubkeyToAddress L publicKey) w1)) \<noteq> None
      \<longrightarrow> (\<exists>e. fst (DeployContract L rpc ctx privateKeyHex contractData w) = (None, Some e))"
    by (auto simp: DeployContract_def Let_def split: prod.splits option.splits)
next
  show "snd (hexutil_Decode L contractData) \<noteq> None
      \<longrightarrow> (\<exists>e. fst (DeployContract L rpc ctx privateKeyHex contractData w) = (None, Some e))"
    by (auto simp: DeployContract_def Let_def split: prod.splits option.splits)
next
  show "HexToECDSA L (strip_0x privateKeyHex) = (privateKey, key_err) \<and>
    SuggestGasPrice L (client rpc) ctx w = ((gasPrice, gas_err), w1) \<and>
    Public_ECDSA L privateKey = Some publicKey \<and>
    PendingNonceAt L (client rpc) ctx (PubkeyToAddress L publicKey) w1 = ((nonce, nonce_err), w2) \<and>
    hexutil_Decode L contractData = (decoded, data_err) \<and>
    signedTx = fst (SignTx L (NewContractCreation L nonce (Some 0) 2000000 gasPrice decoded)
                      HomesteadSigner privateKey) \<and>
    fst (SendTransaction L (client rpc) ctx signedTx w2) \<noteq> None
      \<longrightarrow> (\<exists>e. fst (DeployContract L rpc ctx privateKeyHex contractData w) = (None, Some e))"
    by (auto simp: DeployContract_def Let_def split: prod.splits option.splits)
qed

theorem DeployContract_outcome_witness:
  "DeployContract (node 0 0) rpc0 () ''0xbeef'' ''0x6080'' 0 = ((Some tx0, None), 3) \<and>
   (\<exists>e. fst (DeployContract (node 0 0) rpc0 () ''0x12'' ''0x6080'' 0) = (None, Some e)) \<and>
   (\<exists>e. fst (DeployContract (node 0 0) rpc0 () ''0xbeef'' ''6080'' 0) = (None, Some e))"
proof -
  have good:
    "HexToECDSA (node 0 0) (strip_0x ''0xbeef'') = (''beef'', None)"
    "SuggestGasPrice (node 0 0) (client rpc0) () 0 = ((Some 2000000000, None), 1)"
    "Public_ECDSA (node 0 0) ''beef'' = Some ''beef''"
    "PendingNonceAt (node 0 0) (client rpc0) () (PubkeyToAddress (node 0 0) ''beef'') 1 = ((3, None), 2)"
    "hexutil_Decode (node 0 0) ''0x6080'' = ([0x60, 0x80], None)"
    "Some tx0 = fst (SignTx (node 0 0)
        (NewContractCreation (node 0 0) 3 (Some 0) 2000000 (Some 2000000000) [0x60, 0x80])
        HomesteadSigner ''beef'')"
    "SendTransaction (node 0 0) (client rpc0) () (Some tx0) 2 = (None, 3)"
    by (simp_all add: node_def strip_0x_def tx0_def)
  have bad_key: "snd (HexToECDSA (node 0 0) (strip_0x ''0x12'')) \<noteq> None"
    by (simp add: node_def strip_0x_def)
  have bad_data: "snd (hexutil_Decode (node 0 0) ''6080'') \<noteq> None"
    by (simp add: node_def)
  from DeployContract_outcome [of "node 0 0" "''0xbeef''" "''beef''" rpc0 "()" 0
      "Some 2000000000" 1 "''beef''" 3 2 "''0x6080''" "[0x60, 0x80]" "Some tx0" 3] good
  have first: "DeployContract (node 0 0) rpc0 () ''0xbeef'' ''0x6080'' 0 = ((Some tx0, None), 3)"
    by blast
  from DeployContract_outcome [where L = "node 0 0" and privateKeyHex = "''0x12''" and rpc = rpc0
      and ctx = "()" and w = 0 and contractData = "''0x6080''"] bad_key
  have second: "\<exists>e. fst (DeployContract (node 0 0) rpc0 () ''0x12'' ''0x6080'' 0) = (None, Some e)"
    by blast
  from DeployContract_outcome [where L = "node 0 0" and privateKeyHex = "''0xbeef''" and rpc = rpc0
      and ctx = "()" and w = 0 and contractData = "''6080''"] bad_data
  have third: "\<exists>e. fst (DeployContract (node 0 0) rpc0 () ''0xbeef'' ''6080'' 0) = (None, Some e)"
    by blast
  from first second third show ?thesis by (intro conjI)
qed

section \<open>What becomes of the library's errors\<close>

text \<open>
  C2, as the code has it. The two longer methods rewrap. In \<^verbatim>\<open>DeployContract\<close>, the
  first step that fails (key parsing, gas price, nonce, decoding, sending) gives a new
  error whose text is the step's prefix followed by the text of the underlying error.
  In \<^verbatim>\<open>WaitForReceipt\<close>, when five queries have failed with their waits running full
  time and the sixth query fails, the result is a new error with the prefix
  \<^verbatim>\<open>Cannot get the receipt:\<close> followed by the text of the sixth query's error. A new
  error of this kind is never the underlying error itself. The accessors
  \<^verbatim>\<open>GetBalance\<close>, \<^verbatim>\<open>GetCode\<close>, \<^verbatim>\<open>GetBlockByNumber\<close>, \<^verbatim>\<open>GetTransactionByHash\<close> and
  \<^verbatim>\<open>GetSnapshot\<close> return what the library's call returns, its error value included,
  and \<^verbatim>\<open>GetID\<close> returns a \<^verbatim>\<open>nil\<close> error whatever its queries return.
\<close>

theorem errors_wrapped_or_passed_through:
  "GetBalance L rpc ctx address blockNumber w =
     BalanceAt L (client rpc) ctx (HexToAddress L address) blockNumber w \<and>
   GetCode L rpc ctx address blockNumber w =
     CodeAt L (client rpc) ctx (HexToAddress L address) blockNumber w \<and>
   GetBlockByNumber L rpc ctx number w = BlockByNumber L (client rpc) ctx number w \<and>
   GetTransactionByHash L rpc ctx hash w = TransactionByHash L (client rpc) ctx (HexToHash L hash) w \<and>
   GetSnapshot L rpc ctx w = SnapshotAt L (client rpc) ctx None w \<and>
   snd (fst (GetID L rpc ctx w)) = None \<and>
   (HexToECDSA L (strip_0x privateKeyHex) = (privateKey, Some e)
      \<longrightarrow> fst (DeployContract L rpc ctx privateKeyHex contractData w) =
            (None, Some (ErrorsNew (Sprintf_s ''Wrong private key:'' e)))) \<and>
   (HexToECDSA L (strip_0x privateKeyHex) = (privateKey, None) \<and>
    SuggestGasPrice L (client rpc) ctx w = ((gasPrice, Some e), w1)
      \<longrightarrow> fst (DeployContract L rpc ctx privateKeyHex contractData w) =
            (None, Some (ErrorsNew (Sprintf_s ''Cannot get gas price:'' e)))) \<and>
   (HexToECDSA L (strip_0x privateKeyHex) = (privateKey, None) \<and>
    SuggestGasPrice L (client rpc) ctx w = ((gasPrice, None), w1) \<and>
    Public_ECDSA L privateKey = Some publicKey \<and>
    PendingNonceAt L (client rpc) ctx (PubkeyToAddress L publicKey) w1 = ((nonce, Some e), w2)
      \<longrightarrow> fst (DeployContract L rpc ctx privateKeyHex contractData w) =
            (None, Some (ErrorsNew (Sprintf_s ''Cannot get nonce:'' e)))) \<and>
   (HexToECDSA L (strip_0x privateKeyHex) = (privateKey, None) \<and>
    SuggestGasPrice L (client rpc) ctx w = ((gasPrice, None), w1) \<and>
    Public_ECDSA L privateKey = Some publicKey \<and>
    PendingNonceAt L (client rpc) ctx (PubkeyToAddress L publicKey) w1 = ((nonce, None), w2) \<and>
    hexutil_Decode L contractData = (decoded, Some e)
      \<longrightarrow> fst (DeployContract L rpc ctx privateKeyHex contractData w) =
            (None, Some (ErrorsNew (Sprintf_s ''Cannot decode contract data:'' e)))) \<and>
   (HexToECDSA L (strip_0x privateKeyHex) = (privateKey, None) \<and>
    SuggestGasPrice L (client rpc) ctx w = ((gasPrice, None), w1) \<and>
    Public_ECDSA L privateKey = Some publicKey \<and>
    PendingNonceAt L (client rpc) ctx (PubkeyToAddress L publicKey) w1 = ((nonce, None), w2) \<and>
    hexutil_Decode L contractData = (decoded, None) \<and>
    signedTx = fst (SignTx L (NewContractCreation L nonce (Some 0) 2000000 gasPrice decoded)
                      HomesteadSigner privateKey) \<and>
    SendTransaction L (client rpc) ctx signedTx w2 = (Some e, w3)
      \<longrightarrow> fst (DeployContract L rpc ctx privateKeyHex contractData w) =
            (None, Some (ErrorsNew (Sprintf_s ''Cannot send transaction:'' e)))) \<and>
   ((\<forall>j<5. retried L rpc ctx tx (world_at_attempt L rpc ctx tx j w)) \<and>
    TransactionReceipt L (client rpc) ctx (Transaction_Hash L tx)
      (world_at_attempt L rpc ctx tx 5 w) = ((receipt, Some e), w')
      \<longrightarrow> fst (WaitForReceipt L rpc ctx tx w) =
            (None, Some (ErrorsNew (Sprintf_s ''Cannot get the receipt:'' e)))) \<and>
   (text \<noteq> [] \<longrightarrow> ErrorsNew (Sprintf_s text e) \<noteq> e)"
proof (intro conjI)
  show "(\<forall>j<5. retried L rpc ctx tx (world_at_attempt L rpc ctx tx j w)) \<and>
    TransactionReceipt L (client rpc) ctx (Transaction_Hash L tx)
      (world_at_attempt L rpc ctx tx 5 w) = ((receipt, Some e), w')
      \<longrightarrow> fst (WaitForReceipt L rpc ctx tx w) =
            (None, Some (ErrorsNew (Sprintf_s ''Cannot get the receipt:'' e)))"
    using WaitForReceipt_exhausted [of L rpc ctx tx w receipt e w'] by simp
next
  show "text \<noteq> [] \<longrightarrow> ErrorsNew (Sprintf_s text e) \<noteq> e"
    by (simp add: Sprintf_s_not_same)
next
  show "snd (fst (GetID L rpc ctx w)) = None"
    by (rule GetID_error_nil)
qed (auto simp: GetBalance_def GetCode_def GetBlockByNumber_def GetTransactionByHash_def
      GetSnapshot_def DeployContract_def Let_def)

lemma unreachable_rounds:
  "next_round unreachable_node rpc0 () tx0 t = Suc (Suc t)"
  "retried unreachable_node rpc0 () tx0 t = (t < 100 \<and> Suc t < 100)"
  by (auto simp: next_round_def retried_def unreachable_node_def node_def)

lemma unreachable_world_at: "world_at_attempt unreachable_node rpc0 () tx0 k t = t + 2 * k"
  by (induction k arbitrary: t) (simp_all add: unreachable_rounds)

theorem errors_wrapped_or_passed_through_witness:
  "fst (DeployContract unreachable_node rpc0 () ''0x12'' ''0x6080'' 0) =
     (None, Some (ErrorsNew ''Wrong private key:invalid length'')) \<and>
   fst (DeployContract unreachable_node rpc0 () ''0xbeef'' ''6080'' 0) =
     (None, Some (ErrorsNew ''Cannot decode contract data:hex string without 0x prefix'')) \<and>
   fst (WaitForReceipt unreachable_node rpc0 () tx0 0) =
     (None, Some (ErrorsNew ''Cannot get the receipt:not found'')) \<and>
   snd (fst (GetBalance unreachable_node rpc0 () ''0x00'' None 0)) =
     Some (LibError ''connection refused'')"
proof -
  have bad_key: "HexToECDSA unreachable_node (strip_0x ''0x12'') =
      (''12'', Some (LibError ''invalid length''))"
    by (simp add: unreachable_node_def node_def strip_0x_def)
  have steps:
    "HexToECDSA unreachable_node (strip_0x ''0xbeef'') = (''beef'', None)"
    "SuggestGasPrice unreachable_node (client rpc0) () 0 = ((Some 2000000000, None), 1)"
    "Public_ECDSA unreachable_node ''beef'' = Some ''beef''"
    "PendingNonceAt unreachable_node (client rpc0) () (PubkeyToAddress unreachable_node ''beef'') 1 =
       ((3, None), 2)"
    "hexutil_Decode unreachable_node ''6080'' =
       ([], Some (LibError ''hex string without 0x prefix''))"
    by (simp_all add: unreachable_node_def node_def strip_0x_def)
  have rounds: "\<forall>j<5. retried unreachable_node rpc0 () tx0
      (world_at_attempt unreachable_node rpc0 () tx0 j 0)"
    by (simp add: unreachable_world_at unreachable_rounds)
  have sixth: "TransactionReceipt unreachable_node (client rpc0) ()
      (Transaction_Hash unreachable_node tx0) (world_at_attempt unreachable_node rpc0 () tx0 5 0) =
      ((None, Some (LibError ''not found'')), 11)"
    by (simp add: unreachable_world_at) (simp add: unreachable_node_def node_def)
  have refused: "BalanceAt unreachable_node (client rpc0) () (HexToAddress unreachable_node ''0x00'') None 0 =
      ((None, Some (LibError ''connection refused'')), 1)"
    by (simp add: unreachable_node_def node_def)
  from errors_wrapped_or_passed_through [where L = unreachable_node and rpc = rpc0 and ctx = "()"
      and w = 0 and privateKeyHex = "''0x12''" and contractData = "''0x6080''"
      and privateKey = "''12''" and e = "LibError ''invalid length''"] bad_key
  have first: "fst (DeployContract unreachable_node rpc0 () ''0x12'' ''0x6080'' 0) =
     (None, Some (ErrorsNew (Sprintf_s ''Wrong private key:'' (LibError ''invalid length''))))"
    by blast
  from errors_wrapped_or_passed_through [where L = unreachable_node and rpc = rpc0 and ctx = "()"
      and w = 0 and privateKeyHex = "''0xbeef''" and contractData = "''6080''"
      and privateKey = "''beef''" and gasPrice = "Some 2000000000" and ?w1.0 = 1
      and publicKey = "''beef''" and nonce = 3 and ?w2.0 = 2 and decoded = "[]"
      and e = "LibError ''hex string without 0x prefix''"] steps
  have second: "fst (DeployContract unreachable_node rpc0 () ''0xbeef'' ''6080'' 0) =
     (None, Some (ErrorsNew (Sprintf_s ''Cannot decode contract data:''
        (LibError ''hex string without 0x prefix''))))"
    by blast
  from errors_wrapped_or_passed_through [where L = unreachable_node and rpc = rpc0 and ctx = "()"
      and w = 0 and tx = tx0 and receipt = None and e = "LibError ''not found''" and w' = 11
      and address = "''0x00''" and blockNumber = None] rounds sixth
  have third: "fst (WaitForReceipt unreachable_node rpc0 () tx0 0) =
     (None, Some (ErrorsNew (Sprintf_s ''Cannot get the receipt:'' (LibError ''not found''))))"
    and fourth: "GetBalance unreachable_node rpc0 () ''0x00'' None 0 =
      BalanceAt unreachable_node (client rpc0) () (HexToAddress unreachable_node ''0x00'') None 0"
    by blast+
  from first second third fourth refused show ?thesis
    by (simp add: Sprintf_s_def)
qed

text \<open>
  Against a node that refuses the balance query, \<^verbatim>\<open>GetBalance\<close> returns the library's
  own error value, not a new error with a prefix.
\<close>

theorem GetBalance_rewraps_counterexample:
  "snd (fst (BalanceAt unreachable_node (client rpc0) () (HexToAddress unreachable_node ''0x00'') None 0))
     = Some (LibError ''connection refused'') \<and>
   snd (fst (GetBalance unreachable_node rpc0 () ''0x00'' None 0)) = Some (LibError ''connection refused'')"
  by (simp add: GetBalance_def unreachable_node_def node_def)

end
